theory Spec2Isabelle
  imports Complex_Main "HOL-Library.Word" "HOL-Library.AList"
begin

section \<open>Data model\<close>

text \<open>
  The Go package keeps its whole state in package-level variables and shares \<open>*Node\<close>
  pointers between the registry, the updated set, the pending-ack table and the decoded
  messages. The model threads one \<open>state\<close> record through every function and keeps the
  nodes in an explicit store: a pointer is a \<open>ref\<close>, and \<open>heap s r\<close> is the object it
  points to. A pointer that may be nil is a \<open>ref option\<close>.
\<close>

type_synonym ref = nat

text \<open>
  Modelled from the spec: the node type, its status enumeration and its ping sentinels are
  declared in a file that is not part of the sources at hand. Section 3 of the spec gives
  the fields: ip (IPv4, four bytes), port (u16), status, heartbeat (u32), timestamp,
  ping_millis (with the sentinels NoData and TimedOut) and emit_counter (i8).
\<close>

datatype NodeStatus = StatusUnknown | StatusAlive | StatusDead | StatusForwardTo

datatype pingValue = PingNoData | PingTimedOut | PingMillis int

record Node =
  ip :: "8 word \<times> 8 word \<times> 8 word \<times> 8 word"
  port :: "16 word"
  status :: NodeStatus
  heartbeat :: "32 word"
  timestamp :: "32 word"
  pingMillis :: pingValue
  emitCounter :: "8 word"

text \<open>\<open>strconv.FormatInt(n, 10)\<close> on a non-negative number.\<close>

fun formatInt :: "nat \<Rightarrow> string" where
  "formatInt n =
     (if n < 10 then [''0123456789'' ! n]
      else formatInt (n div 10) @ [''0123456789'' ! (n mod 10)])"

declare formatInt.simps [simp del]

text \<open>Modelled from the spec: \<open>Address()\<close> is missing; the address is \<open>"ip:port"\<close>.\<close>

definition Address :: "Node \<Rightarrow> string" where
  "Address n =
     (case ip n of (a, b, c, d) \<Rightarrow>
        formatInt (unat a) @ ''.'' @ formatInt (unat b) @ ''.'' @
        formatInt (unat c) @ ''.'' @ formatInt (unat d) @ '':'' @ formatInt (unat (port n)))"

datatype pendingAckType = packPing | packPingReq | packNFP

record pendingAck =
  startTime :: "32 word"
  pa_node :: ref
  callback :: "ref option"
  callbackCode :: "32 word"
  packType :: pendingAckType

record deadNodeCounter =
  retry :: int
  retryCountdown :: int

text \<open>
  Modelled from the spec: the message type and its constructors are missing. Section 4.6
  gives the content of a datagram: verb, sender, sender heartbeat, member records
  (node, status, heartbeat) and an optional broadcast.
\<close>

datatype messageVerb = verbPing | verbAck | verbPingRequest | verbNonForwardingPing

record messageMember =
  m_node :: ref
  m_status :: NodeStatus
  m_heartbeat :: "32 word"

record Broadcast =
  b_label :: string
  b_emitCounter :: "8 word"

record message =
  verb :: messageVerb
  sender :: ref
  senderHeartbeat :: "32 word"
  members :: "messageMember list"
  broadcast :: "Broadcast option"

text \<open>
  What the program does to the outside is recorded in a trace: each call of the logger,
  each notification of the status listener (\<open>doStatusUpdate\<close>), each datagram written.
\<close>

datatype event =
    LogDecreasingHeartbeat "32 word" "32 word"
  | LogUpdatingHost string NodeStatus
  | StatusUpdate ref NodeStatus
  | LogMessageIsOld "32 word" "32 word"
  | LogNoStatus string
  | LogAddingHost string
  | LogRemovingHost string
  | LogRemovingUpdated string
  | LogForgettingDead string
  | LogHeartbeat "32 word"
  | LogNoNodesToPing
  | LogFailureToPing string
  | LogCannotForward string
  | LogRequestingIndirect string string
  | LogGot messageVerb string "32 word"
  | LogHeartbeatAdvanced "32 word" "32 word"
  | LogGotAck "32 word"
  | LogTimedOut string "32 word" pendingAckType
  | LogSent messageVerb string
  | LogBroadcast string
  | Datagram string message

text \<open>A goroutine started with \<open>go\<close>: it runs later, interleaved with the rest.\<close>

datatype task =
    GoTransmitAck ref "32 word"
  | GoForwardOnTimeout pendingAck

text \<open>
  A Go map is an association list with distinct keys. Go iterates a map in an order of
  its own choosing; here it is the order of the list, and a state may hold its entries in
  any order.
\<close>

type_synonym nodeMap = "(string \<times> ref) list"

record state =
  heap :: "ref \<Rightarrow> Node"
  thisHost :: ref
  knownNodes :: nodeMap
  updatedNodes :: nodeMap
  deadNodeRetries :: "(string \<times> deadNodeCounter) list"
  pendingAcks :: "(string \<times> pendingAck) list"
  currentHeartbeat :: "32 word"
  knownNodesModifiedFlag :: bool
  runningFlag :: bool
  pingdata :: "32 word list"
  broadcasts :: "(string \<times> Broadcast) list"
  nowMillis :: "32 word"
  trace :: "event list"
  spawned :: "task list"

text \<open>
  What the program takes from outside: floating point, randomness, the network and the
  configuration. \<open>mathLog n\<close> stands for \<open>math.Log(float64(n))\<close>, \<open>nSigma w k\<close> for
  \<open>pingdata.nSigma(k)\<close> on the window \<open>w\<close> (mean plus \<open>k\<close> standard deviations; the
  estimator is missing from the sources), \<open>shuffle\<close> for the random permutation of
  \<open>getRandomNodes\<close>, \<open>netOutcome a\<close> for what resolving, dialling and writing to the
  address \<open>a\<close> do, \<open>broadcastFloor\<close> for the negative count at which a broadcast is
  evicted.
\<close>

datatype netResult = NetOk | ResolveFails | DialFails | WriteFails

datatype error = ErrResolve | ErrDial | ErrWrite | ErrMemberOverflow | ErrDecode

datatype panic = IndexOutOfRange | SliceBoundsOutOfRange | InvalidStatus | NilDereference

record env =
  mathLog :: "nat \<Rightarrow> real"
  nSigma :: "32 word list \<Rightarrow> real \<Rightarrow> real"
  shuffle :: "ref list \<Rightarrow> ref list"
  netOutcome :: "string \<Rightarrow> netResult"
  heartbeatMillis :: "32 word"
  broadcastFloor :: int

text \<open>A call either returns or panics; a panic ends the program.\<close>

datatype 'a res = Done 'a | Panicked panic

definition andThen :: "'a res \<Rightarrow> ('a \<Rightarrow> 'b res) \<Rightarrow> 'b res" where
  "andThen r f = (case r of Done x \<Rightarrow> f x | Panicked p \<Rightarrow> Panicked p)"

section \<open>Constants and conversions\<close>

definition lambda :: real where
  "lambda = 5 / 2"

definition timeoutToleranceSigmas :: real where
  "timeoutToleranceSigmas = 3"

definition maxDeadNodeRetries :: int where
  "maxDeadNodeRetries = 10"

text \<open>
  Go converts a floating-point number to an integer by discarding the fraction. (A value
  outside the range of the target type converts to an implementation-dependent result;
  the model truncates and, for \<open>uint32\<close>, wraps.)
\<close>

definition truncate :: "real \<Rightarrow> int" where
  "truncate x = (if 0 \<le> x then \<lfloor>x\<rfloor> else \<lceil>x\<rceil>)"

definition float_to_uint32 :: "real \<Rightarrow> 32 word" where
  "float_to_uint32 x = word_of_int (truncate x)"

definition logEvent :: "event \<Rightarrow> state \<Rightarrow> state" where
  "logEvent e s = s\<lparr>trace := trace s @ [e]\<rparr>"

definition GetNowInMillis :: "state \<Rightarrow> 32 word" where
  "GetNowInMillis s = nowMillis s"

section \<open>The node map\<close>

text \<open>
  Modelled from the spec: the \<open>nodeMap\<close> type is missing. Section 4.1: uniqueness is by
  address; \<open>getRandomNodes(count, exclude...)\<close> returns up to \<open>count\<close> (all if
  \<open>count = 0\<close>) nodes in random order, with the excluded addresses filtered.
\<close>

definition nm_contains :: "state \<Rightarrow> nodeMap \<Rightarrow> ref \<Rightarrow> bool" where
  "nm_contains s m n = (map_of m (Address (heap s n)) \<noteq> None)"

definition nm_add :: "state \<Rightarrow> nodeMap \<Rightarrow> ref \<Rightarrow> nodeMap" where
  "nm_add s m n = AList.update (Address (heap s n)) n m"

definition nm_delete :: "state \<Rightarrow> nodeMap \<Rightarrow> ref \<Rightarrow> nodeMap" where
  "nm_delete s m n = AList.delete (Address (heap s n)) m"

definition nm_values :: "nodeMap \<Rightarrow> ref list" where
  "nm_values m = map snd m"

definition nm_length :: "nodeMap \<Rightarrow> nat" where
  "nm_length m = length m"

definition getRandomNodes :: "env \<Rightarrow> state \<Rightarrow> nodeMap \<Rightarrow> nat \<Rightarrow> ref list \<Rightarrow> ref list" where
  "getRandomNodes e s m count exclude =
     (let allNodes = shuffle e (nm_values m);
          filtered = filter (\<lambda>n. Address (heap s n) \<notin> set (map (\<lambda>x. Address (heap s x)) exclude))
                       allNodes
      in if count = 0 then filtered else take count filtered)"

section \<open>Status updates\<close>

text \<open>\<open>emitCount\<close> and \<open>pingRequestCount\<close>: \<open>int(lambda * math.Log(float64(n)) + 0.5)\<close>.\<close>

definition emitCount :: "env \<Rightarrow> state \<Rightarrow> int" where
  "emitCount e s = truncate (lambda * mathLog e (nm_length (knownNodes s)) + 1 / 2)"

definition pingRequestCount :: "env \<Rightarrow> state \<Rightarrow> int" where
  "pingRequestCount e s = truncate (lambda * mathLog e (nm_length (knownNodes s)) + 1 / 2)"

text \<open>Modelled from the spec: \<open>Touch\<close> sets the timestamp only.\<close>

definition Touch :: "ref \<Rightarrow> state \<Rightarrow> state" where
  "Touch n s = s\<lparr>heap := (heap s)(n := (heap s n)\<lparr>timestamp := GetNowInMillis s\<rparr>)\<rparr>"

text \<open>Modelled from the spec: \<open>doStatusUpdate\<close> notifies the registered listener.\<close>

definition doStatusUpdate :: "ref \<Rightarrow> NodeStatus \<Rightarrow> state \<Rightarrow> state" where
  "doStatusUpdate n st s = logEvent (StatusUpdate n st) s"

definition updateNodeStatus :: "env \<Rightarrow> ref \<Rightarrow> NodeStatus \<Rightarrow> 32 word \<Rightarrow> state \<Rightarrow> state" where
  "updateNodeStatus e n st hb s =
     (if status (heap s n) \<noteq> st then
        let s1 = (if hb < heartbeat (heap s n)
                  then logEvent (LogDecreasingHeartbeat (heartbeat (heap s n)) hb) s else s);
            s2 = s1\<lparr>heap := (heap s1)(n := (heap s1 n)
                     \<lparr>timestamp := GetNowInMillis s1,
                      status := st,
                      emitCounter := word_of_int (emitCount e s1),
                      heartbeat := hb\<rparr>)\<rparr>;
            s3 = (if \<not> nm_contains s2 (updatedNodes s2) n
                  then s2\<lparr>updatedNodes := nm_add s2 (updatedNodes s2) n\<rparr> else s2);
            s4 = (if st \<noteq> StatusDead
                  then s3\<lparr>deadNodeRetries :=
                            AList.delete (Address (heap s3 n)) (deadNodeRetries s3)\<rparr>
                  else s3);
            s5 = logEvent (LogUpdatingHost (Address (heap s4 n)) st) s4
        in doStatusUpdate n st s5
      else s)"

definition UpdateNodeStatus :: "env \<Rightarrow> ref \<Rightarrow> NodeStatus \<Rightarrow> state \<Rightarrow> state" where
  "UpdateNodeStatus e n st s = updateNodeStatus e n st (heartbeat (heap s n)) s"

definition AddNode :: "env \<Rightarrow> ref \<Rightarrow> state \<Rightarrow> state res" where
  "AddNode e n s =
     (if \<not> nm_contains s (knownNodes s) n then
        andThen
          (if status (heap s n) = StatusUnknown
           then Done (UpdateNodeStatus e n StatusAlive
                        (logEvent (LogNoStatus (Address (heap s n))) s))
           else if status (heap s n) = StatusForwardTo then Panicked InvalidStatus
           else Done s)
          (\<lambda>s1. let s2 = Touch n s1;
                     s3 = s2\<lparr>knownNodes := nm_add s2 (knownNodes s2) n\<rparr>;
                     s4 = logEvent (LogAddingHost (Address (heap s3 n))) s3
                 in Done (s4\<lparr>knownNodesModifiedFlag := True\<rparr>))
      else Done s)"

definition RemoveNode :: "ref \<Rightarrow> state \<Rightarrow> state" where
  "RemoveNode n s =
     (if nm_contains s (knownNodes s) n then
        let s1 = Touch n s;
            s2 = s1\<lparr>knownNodes := nm_delete s1 (knownNodes s1) n\<rparr>;
            s3 = logEvent (LogRemovingHost (Address (heap s2 n))) s2
        in s3\<lparr>knownNodesModifiedFlag := True\<rparr>
      else s)"

section \<open>Dissemination\<close>

text \<open>
  \<open>getRandomUpdatedNodes\<close>: the first loop prunes the updated set and copies the rest;
  \<open>sort.Sort\<close> orders by descending emit counter (here the stable insertion sort, the
  order of equal counters being arbitrary in Go).
\<close>

fun pruneUpdatedNodes :: "ref list \<Rightarrow> nodeMap \<Rightarrow> state \<Rightarrow> nodeMap \<times> state" where
  "pruneUpdatedNodes [] cp s = (cp, s)"
| "pruneUpdatedNodes (n # ns) cp s =
     (if sint (emitCounter (heap s n)) \<le> 0
      then pruneUpdatedNodes ns cp
             ((logEvent (LogRemovingUpdated (Address (heap s n))) s)
                \<lparr>updatedNodes := nm_delete s (updatedNodes s) n\<rparr>)
      else pruneUpdatedNodes ns (nm_add s cp n) s)"

definition getRandomUpdatedNodes :: "int \<Rightarrow> ref list \<Rightarrow> state \<Rightarrow> (ref list \<times> state) res" where
  "getRandomUpdatedNodes sz exclude s =
     (case pruneUpdatedNodes (nm_values (updatedNodes s)) [] s of (cp, s1) \<Rightarrow>
        let cp2 = fold (\<lambda>ex m. nm_delete s1 m ex) exclude cp;
            updatedNodesSlice = sort_key (\<lambda>n. - sint (emitCounter (heap s1 n))) (nm_values cp2);
            size2 = (if sz > int (length updatedNodesSlice)
                     then int (length updatedNodesSlice) else sz)
        in if size2 < 0 then Panicked SliceBoundsOutOfRange
           else Done (take (nat size2) updatedNodesSlice, s1))"

text \<open>
  Modelled from the spec: the message constructors are missing. \<open>addMember\<close> appends a
  member record and fails when the one-byte member count of section 4.6 is full.
\<close>

definition newMessage :: "messageVerb \<Rightarrow> ref \<Rightarrow> 32 word \<Rightarrow> message" where
  "newMessage v n code =
     \<lparr>verb = v, sender = n, senderHeartbeat = code, members = [], broadcast = None\<rparr>"

definition addMember :: "message \<Rightarrow> ref \<Rightarrow> NodeStatus \<Rightarrow> 32 word \<Rightarrow> error + message" where
  "addMember msg n st hb =
     (if length (members msg) \<ge> 255 then Inl ErrMemberOverflow
      else Inr (msg\<lparr>members := members msg @ [\<lparr>m_node = n, m_status = st, m_heartbeat = hb\<rparr>]\<rparr>))"

definition addBroadcast :: "message \<Rightarrow> Broadcast \<Rightarrow> message" where
  "addBroadcast msg b = msg\<lparr>broadcast := Some b\<rparr>"

text \<open>
  Modelled from the spec: the broadcast buffer is missing. Section 4.5: the scheduler
  picks the pending broadcast with the highest counter and evicts those that fell to the
  negative floor; a received broadcast that is new is stored and announced.
\<close>

definition getBroadcastToEmit :: "env \<Rightarrow> state \<Rightarrow> (string \<times> Broadcast) option \<times> state" where
  "getBroadcastToEmit e s =
     (let kept = filter (\<lambda>lb. \<not> sint (b_emitCounter (snd lb)) \<le> broadcastFloor e) (broadcasts s);
          s1 = s\<lparr>broadcasts := kept\<rparr>
      in case sort_key (\<lambda>lb. - sint (b_emitCounter (snd lb))) kept of
           [] \<Rightarrow> (None, s1)
         | lb # _ \<Rightarrow> (Some lb, s1))"

definition receiveBroadcast :: "Broadcast option \<Rightarrow> state \<Rightarrow> state" where
  "receiveBroadcast bo s =
     (case bo of
        None \<Rightarrow> s
      | Some b \<Rightarrow>
          if map_of (broadcasts s) (b_label b) = None
          then logEvent (LogBroadcast (b_label b))
                 (s\<lparr>broadcasts := AList.update (b_label b) b (broadcasts s)\<rparr>)
          else s)"

definition decEmitCounter :: "ref \<Rightarrow> state \<Rightarrow> state" where
  "decEmitCounter n s =
     s\<lparr>heap := (heap s)(n := (heap s n)\<lparr>emitCounter := emitCounter (heap s n) - 1\<rparr>)\<rparr>"

text \<open>The loop \<open>for _, n := range nodes\<close> of \<open>transmitVerbGenericUDP\<close>.\<close>

fun addMembers :: "ref list \<Rightarrow> message \<Rightarrow> state \<Rightarrow> (error + message) \<times> state" where
  "addMembers [] msg s = (Inr msg, s)"
| "addMembers (n # ns) msg s =
     (case addMember msg n (status (heap s n)) (heartbeat (heap s n)) of
        Inl err \<Rightarrow> (Inl err, s)
      | Inr msg1 \<Rightarrow> addMembers ns msg1 (decEmitCounter n s))"

definition emitBroadcast :: "env \<Rightarrow> message \<Rightarrow> state \<Rightarrow> message \<times> state" where
  "emitBroadcast e msg s =
     (case getBroadcastToEmit e s of
        (None, s1) \<Rightarrow> (msg, s1)
      | (Some (l, b), s1) \<Rightarrow>
          ((if sint (b_emitCounter b) > 0 then addBroadcast msg b else msg),
           s1\<lparr>broadcasts :=
                 AList.update l (b\<lparr>b_emitCounter := b_emitCounter b - 1\<rparr>) (broadcasts s1)\<rparr>))"

definition transmitVerbGenericUDP ::
  "env \<Rightarrow> ref \<Rightarrow> ref option \<Rightarrow> messageVerb \<Rightarrow> 32 word \<Rightarrow> state \<Rightarrow> (error option \<times> state) res" where
  "transmitVerbGenericUDP e n forwardTo v code s =
     (if netOutcome e (Address (heap s n)) = ResolveFails then Done (Some ErrResolve, s)
      else if netOutcome e (Address (heap s n)) = DialFails then Done (Some ErrDial, s)
      else
        let msg0 = newMessage v (thisHost s) code;
            msg1 = (case forwardTo of
                      None \<Rightarrow> msg0
                    | Some f \<Rightarrow> (case addMember msg0 f StatusForwardTo code of
                                  Inl err \<Rightarrow> msg0 | Inr m \<Rightarrow> m))
        in andThen (getRandomUpdatedNodes (pingRequestCount e s) [n, thisHost s] s)
             (\<lambda>(nodes0, s1).
                let nodes = (if length nodes0 = 0
                             then getRandomNodes e s1 (knownNodes s1)
                                    (nat (pingRequestCount e s1)) [n, thisHost s1]
                             else nodes0)
                in case addMembers nodes msg1 s1 of
                     (Inl err, s2) \<Rightarrow> Done (Some err, s2)
                   | (Inr msg2, s2) \<Rightarrow>
                       (case emitBroadcast e msg2 s2 of (msg3, s3) \<Rightarrow>
                          if netOutcome e (Address (heap s n)) = WriteFails
                          then Done (Some ErrWrite, s3)
                          else
                            let s4 = logEvent (Datagram (Address (heap s3 n)) msg3) s3;
                                s5 = fold (\<lambda>m. decEmitCounter (m_node m)) (members msg3) s4
                            in Done (None, logEvent (LogSent v (Address (heap s5 n))) s5))))"

definition ackKey :: "state \<Rightarrow> ref \<Rightarrow> 32 word \<Rightarrow> string" where
  "ackKey s n code = Address (heap s n) @ '':'' @ formatInt (unat code)"


definition transmitVerbAckUDP ::
  "env \<Rightarrow> ref \<Rightarrow> 32 word \<Rightarrow> state \<Rightarrow> (error option \<times> state) res" where
  "transmitVerbAckUDP e n code s = transmitVerbGenericUDP e n None verbAck code s"

definition transmitVerbPingUDP ::
  "env \<Rightarrow> ref \<Rightarrow> 32 word \<Rightarrow> state \<Rightarrow> (error option \<times> state) res" where
  "transmitVerbPingUDP e n code s =
     (let pack = \<lparr>startTime = GetNowInMillis s, pa_node = n, callback = None,
                  callbackCode = 0, packType = packPing\<rparr>;
          s1 = s\<lparr>pendingAcks := AList.update (ackKey s n code) pack (pendingAcks s)\<rparr>
      in transmitVerbGenericUDP e n None verbPing code s1)"

definition PingNode :: "env \<Rightarrow> ref \<Rightarrow> state \<Rightarrow> (error option \<times> state) res" where
  "PingNode e n s =
     andThen (transmitVerbPingUDP e n (currentHeartbeat s) s)
       (\<lambda>(err, s1). case err of
                      None \<Rightarrow> Done (None, s1)
                    | Some x \<Rightarrow> Done (Some x, logEvent (LogFailureToPing (Address (heap s1 n))) s1))"

section \<open>Indirect probing\<close>





section \<open>Receiving\<close>

definition elapsed :: "pendingAck \<Rightarrow> state \<Rightarrow> 32 word" where
  "elapsed a s = GetNowInMillis s - startTime a"

text \<open>
  Modelled from the spec: the estimator is missing. Section 4.8: a bounded rolling window
  (capacity 150); \<open>add\<close> appends a sample and drops the oldest beyond the capacity.
\<close>

definition pingdata_add :: "32 word \<Rightarrow> 32 word list \<Rightarrow> 32 word list" where
  "pingdata_add x w = (let w1 = w @ [x] in drop (length w1 - 150) w1)"

definition notePingResponseTime :: "pendingAck \<Rightarrow> state \<Rightarrow> state" where
  "notePingResponseTime pack s =
     (let elapsedMillis = elapsed pack s;
          s1 = s\<lparr>heap := (heap s)(pa_node pack :=
                    (heap s (pa_node pack))\<lparr>pingMillis := PingMillis (uint elapsedMillis)\<rparr>)\<rparr>;
          elapsedMillis2 = (if elapsedMillis < 10 then 10 else elapsedMillis);
          s2 = s1\<lparr>pingdata := pingdata_add elapsedMillis2 (pingdata s1)\<rparr>
      in logEvent (LogGotAck elapsedMillis2) s2)"

definition receiveVerbAckUDP :: "env \<Rightarrow> message \<Rightarrow> state \<Rightarrow> (error option \<times> state) res" where
  "receiveVerbAckUDP e msg s =
     (let key = ackKey s (sender msg) (senderHeartbeat msg)
      in if map_of (pendingAcks s) key \<noteq> None then
           let s1 = Touch (sender msg) s;
               s2 = (case map_of (pendingAcks s1) key of
                       Some pack \<Rightarrow>
                         (case callback pack of
                            Some cb \<Rightarrow>
                              s1\<lparr>spawned := spawned s1 @ [GoTransmitAck cb (callbackCode pack)]\<rparr>
                          | None \<Rightarrow> notePingResponseTime pack s1)
                     | None \<Rightarrow> s1)
           in Done (None, s2\<lparr>pendingAcks := AList.delete key (pendingAcks s2)\<rparr>)
         else Done (None, s))"

text \<open>
  \<open>len(msg.members) >= 0\<close> holds of every slice, so \<open>msg.members[0]\<close> is evaluated
  whatever the length: on an empty slice the index is out of range and Go panics.
\<close>

definition receiveVerbForwardUDP :: "env \<Rightarrow> message \<Rightarrow> state \<Rightarrow> (error option \<times> state) res" where
  "receiveVerbForwardUDP e msg s =
     (if int (length (members msg)) \<ge> 0 then
        (case members msg of
           [] \<Rightarrow> Panicked IndexOutOfRange
         | member # _ \<Rightarrow>
             if m_status member = StatusForwardTo then
               let n = m_node member;
                   code = m_heartbeat member;
                   key = ackKey s n code;
                   pack = \<lparr>startTime = GetNowInMillis s, pa_node = n,
                           callback = Some (sender msg), callbackCode = code,
                           packType = packNFP\<rparr>;
                   s1 = s\<lparr>pendingAcks := AList.update key pack (pendingAcks s)\<rparr>
               in transmitVerbGenericUDP e n None verbNonForwardingPing code s1
             else Done (None, s))
      else Done (None, s))"

definition receiveVerbPingUDP :: "env \<Rightarrow> message \<Rightarrow> state \<Rightarrow> (error option \<times> state) res" where
  "receiveVerbPingUDP e msg s = transmitVerbAckUDP e (sender msg) (senderHeartbeat msg) s"

definition receiveVerbNonForwardPingUDP ::
  "env \<Rightarrow> message \<Rightarrow> state \<Rightarrow> (error option \<times> state) res" where
  "receiveVerbNonForwardPingUDP e msg s =
     transmitVerbAckUDP e (sender msg) (senderHeartbeat msg) s"

text \<open>The body of the loop of \<open>updateStatusesFromMessage\<close>, for one member record.\<close>

definition updateStatusFromMember :: "env \<Rightarrow> messageMember \<Rightarrow> state \<Rightarrow> state res" where
  "updateStatusFromMember e m s =
     (if m_heartbeat m < heartbeat (heap s (m_node m))
      then Done (logEvent (LogMessageIsOld (heartbeat (heap s (m_node m))) (m_heartbeat m)) s)
      else
        (case m_status m of
           StatusForwardTo \<Rightarrow> Done s
         | StatusDead \<Rightarrow>
             if Address (heap s (m_node m)) \<noteq> Address (heap s (thisHost s))
             then AddNode e (m_node m)
                    (updateNodeStatus e (m_node m) (m_status m) (m_heartbeat m) s)
             else Done s
         | _ \<Rightarrow> AddNode e (m_node m)
                  (updateNodeStatus e (m_node m) (m_status m) (m_heartbeat m) s)))"

fun updateStatusesFromMembers :: "env \<Rightarrow> messageMember list \<Rightarrow> state \<Rightarrow> state res" where
  "updateStatusesFromMembers e [] s = Done s"
| "updateStatusesFromMembers e (m # ms) s =
     andThen (updateStatusFromMember e m s) (updateStatusesFromMembers e ms)"

definition updateStatusesFromMessage :: "env \<Rightarrow> message \<Rightarrow> state \<Rightarrow> state res" where
  "updateStatusesFromMessage e msg s =
     andThen (updateStatusesFromMembers e (members msg) s)
       (\<lambda>s1. let s2 = (if senderHeartbeat msg > heartbeat (heap s1 (sender msg))
                       then updateNodeStatus e (sender msg) StatusAlive (senderHeartbeat msg) s1
                       else s1)
             in if \<not> nm_contains s2 (knownNodes s2) (sender msg)
                then AddNode e (sender msg) s2 else Done s2)"

text \<open>The heartbeat synchronisation of \<open>receiveMessageUDP\<close>.\<close>

definition synchronizeHeartbeat :: "message \<Rightarrow> state \<Rightarrow> state" where
  "synchronizeHeartbeat msg s =
     (if senderHeartbeat msg > 0 \<and> senderHeartbeat msg - 1 > currentHeartbeat s
      then (logEvent (LogHeartbeatAdvanced (currentHeartbeat s) (senderHeartbeat msg - 1)) s)
             \<lparr>currentHeartbeat := senderHeartbeat msg - 1\<rparr>
      else s)"

text \<open>
  \<open>decodeMessage\<close> is missing: the handler is given what it returns, an error or the
  decoded message, whose nodes are in the store.
\<close>

definition receiveMessageUDP ::
  "env \<Rightarrow> error + message \<Rightarrow> state \<Rightarrow> (error option \<times> state) res" where
  "receiveMessageUDP e decoded s =
     (case decoded of
        Inl err \<Rightarrow> Done (Some err, s)
      | Inr msg \<Rightarrow>
          let s1 = logEvent (LogGot (verb msg) (Address (heap s (sender msg)))
                               (senderHeartbeat msg)) s;
              s2 = synchronizeHeartbeat msg s1
          in andThen (updateStatusesFromMessage e msg s2)
               (\<lambda>s3. let s4 = receiveBroadcast (broadcast msg) s3
                      in case verb msg of
                           verbPing \<Rightarrow> receiveVerbPingUDP e msg s4
                         | verbAck \<Rightarrow> receiveVerbAckUDP e msg s4
                         | verbPingRequest \<Rightarrow> receiveVerbForwardUDP e msg s4
                         | verbNonForwardingPing \<Rightarrow> receiveVerbNonForwardPingUDP e msg s4))"

section \<open>The timeout check\<close>

definition timeoutMillisOf :: "env \<Rightarrow> state \<Rightarrow> pendingAck \<Rightarrow> 32 word" where
  "timeoutMillisOf e s pack =
     (let timeoutMillis = float_to_uint32 (nSigma e (pingdata s) timeoutToleranceSigmas)
      in if packType pack = packPingReq then timeoutMillis * 2 else timeoutMillis)"

definition setPingMillis :: "ref \<Rightarrow> pingValue \<Rightarrow> state \<Rightarrow> state" where
  "setPingMillis n v s = s\<lparr>heap := (heap s)(n := (heap s n)\<lparr>pingMillis := v\<rparr>)\<rparr>"

text \<open>
  The body of the loop over the pending-ack table in \<open>startTimeoutCheckLoop\<close>, for the
  entry \<open>pack\<close> under the key \<open>k\<close>. \<open>go doForwardOnTimeout(pack)\<close> starts a goroutine.
\<close>

definition checkPendingAck :: "env \<Rightarrow> string \<Rightarrow> pendingAck \<Rightarrow> state \<Rightarrow> state res" where
  "checkPendingAck e k pack s =
     (let timeoutMillis = timeoutMillisOf e s pack
      in if elapsed pack s > timeoutMillis then
           andThen
             (case packType pack of
                packPing \<Rightarrow> Done (s\<lparr>spawned := spawned s @ [GoForwardOnTimeout pack]\<rparr>)
              | packPingReq \<Rightarrow>
                  (let s1 = logEvent (LogTimedOut k timeoutMillis packPingReq) s
                   in case callback pack of
                        None \<Rightarrow> Panicked NilDereference
                      | Some cb \<Rightarrow>
                          if nm_contains s1 (knownNodes s1) cb
                          then Done (setPingMillis cb PingTimedOut
                                 (updateNodeStatus e cb StatusDead (currentHeartbeat s1) s1))
                          else Done s1)
              | packNFP \<Rightarrow>
                  (let s1 = logEvent (LogTimedOut k timeoutMillis packNFP) s
                   in if nm_contains s1 (knownNodes s1) (pa_node pack)
                      then (let s2 = updateNodeStatus e (pa_node pack) StatusDead
                                       (currentHeartbeat s1) s1
                            in case callback pack of
                                 None \<Rightarrow> Panicked NilDereference
                               | Some cb \<Rightarrow> Done (setPingMillis cb PingTimedOut s2))
                      else Done s1))
             (\<lambda>s3. Done (s3\<lparr>pendingAcks := AList.delete k (pendingAcks s3)\<rparr>))
         else Done s)"

fun checkPendingAcks :: "env \<Rightarrow> (string \<times> pendingAck) list \<Rightarrow> state \<Rightarrow> state res" where
  "checkPendingAcks e [] s = Done s"
| "checkPendingAcks e ((k, pack) # rest) s =
     andThen (checkPendingAck e k pack s) (checkPendingAcks e rest)"

text \<open>One turn of the loop of \<open>startTimeoutCheckLoop\<close>: a sweep, then 100 ms of sleep.\<close>

definition sleep :: "32 word \<Rightarrow> state \<Rightarrow> state" where
  "sleep ms s = s\<lparr>nowMillis := nowMillis s + ms\<rparr>"

definition timeoutCheckSweep :: "env \<Rightarrow> state \<Rightarrow> state res" where
  "timeoutCheckSweep e s = checkPendingAcks e (pendingAcks s) s"

definition timeoutCheckTurn :: "env \<Rightarrow> state \<Rightarrow> state res" where
  "timeoutCheckTurn e s = andThen (timeoutCheckSweep e s) (\<lambda>s1. Done (sleep 100 s1))"


section \<open>The failure detector\<close>

text \<open>\<open>int(math.Pow(2.0, float64(retry)))\<close>; a negative exponent gives a fraction.\<close>

definition pow2 :: "int \<Rightarrow> int" where
  "pow2 r = (if 0 \<le> r then 2 ^ nat r else 0)"

text \<open>
  The exponential backoff of \<open>Begin\<close> for a node whose status is dead. The result says
  whether the loop goes on to ping the node (\<open>True\<close>) or takes \<open>continue\<close>.
\<close>

definition deadNodeBackoff :: "ref \<Rightarrow> state \<Rightarrow> bool \<times> state" where
  "deadNodeBackoff n s =
     (let addr = Address (heap s n);
          s1 = (case map_of (deadNodeRetries s) addr of
                  None \<Rightarrow> s\<lparr>deadNodeRetries :=
                              AList.update addr \<lparr>retry = 1, retryCountdown = 2\<rparr>
                                (deadNodeRetries s)\<rparr>
                | Some d \<Rightarrow> s);
          dnc = (case map_of (deadNodeRetries s1) addr of
                   None \<Rightarrow> \<lparr>retry = 1, retryCountdown = 2\<rparr>
                 | Some d \<Rightarrow> d);
          dnc1 = dnc\<lparr>retryCountdown := retryCountdown dnc - 1\<rparr>;
          s2 = s1\<lparr>deadNodeRetries := AList.update addr dnc1 (deadNodeRetries s1)\<rparr>
      in if retryCountdown dnc1 \<le> 0 then
           let dnc2 = dnc1\<lparr>retry := retry dnc1 + 1\<rparr>;
               dnc3 = dnc2\<lparr>retryCountdown := pow2 (retry dnc2)\<rparr>;
               s3 = s2\<lparr>deadNodeRetries := AList.update addr dnc3 (deadNodeRetries s2)\<rparr>
           in if retry dnc3 > maxDeadNodeRetries then
                let s4 = logEvent (LogForgettingDead addr) s3;
                    s5 = s4\<lparr>deadNodeRetries := AList.delete addr (deadNodeRetries s4)\<rparr>
                in (False, RemoveNode n s5)
              else (True, s3)
         else (False, s2))"

datatype visit = Stopped | Skipped | Pinged | PingedAndRestart

text \<open>The body of the loop of \<open>Begin\<close> over the nodes of a round.\<close>

definition visitNode :: "env \<Rightarrow> ref \<Rightarrow> state \<Rightarrow> (visit \<times> state) res" where
  "visitNode e n s =
     (if \<not> runningFlag s then Done (Stopped, s)
      else
        case (if status (heap s n) = StatusDead then deadNodeBackoff n s else (True, s)) of
          (False, s1) \<Rightarrow> Done (Skipped, s1)
        | (True, s1) \<Rightarrow>
            let s2 = s1\<lparr>currentHeartbeat := currentHeartbeat s1 + 1\<rparr>;
                s3 = logEvent (LogHeartbeat (currentHeartbeat s2)) s2
            in andThen (PingNode e n s3)
                 (\<lambda>(err, s4).
                    let s5 = sleep (heartbeatMillis e) s4
                    in if knownNodesModifiedFlag s5
                       then Done (PingedAndRestart, s5\<lparr>knownNodesModifiedFlag := False\<rparr>)
                       else Done (Pinged, s5)))"

fun visitNodes :: "env \<Rightarrow> ref list \<Rightarrow> nat \<Rightarrow> state \<Rightarrow> (nat \<times> state) res" where
  "visitNodes e [] pingCounter s = Done (pingCounter, s)"
| "visitNodes e (n # ns) pingCounter s =
     andThen (visitNode e n s)
       (\<lambda>(v, s1). case v of
                    Stopped \<Rightarrow> Done (pingCounter, s1)
                  | Skipped \<Rightarrow> visitNodes e ns pingCounter s1
                  | Pinged \<Rightarrow> visitNodes e ns (pingCounter + 1) s1
                  | PingedAndRestart \<Rightarrow> Done (pingCounter + 1, s1))"

text \<open>
  One round of the outer loop of \<open>Begin\<close>; the result says whether the loop goes on.
\<close>

definition BeginRound :: "env \<Rightarrow> state \<Rightarrow> (bool \<times> state) res" where
  "BeginRound e s =
     (let randomAllNodes = getRandomNodes e s (knownNodes s) 0 [thisHost s]
      in andThen (visitNodes e randomAllNodes 0 s)
           (\<lambda>(pingCounter, s1).
              if \<not> runningFlag s1 then Done (False, s1)
              else if pingCounter = 0
              then Done (True, sleep (heartbeatMillis e) (logEvent LogNoNodesToPing s1))
              else Done (True, s1)))"

section \<open>What a transmission leaves alone\<close>

text \<open>
  Building and sending a datagram changes the emit counters of nodes, the updated set,
  the broadcast buffer and the trace. \<open>emissionOnly s s'\<close> says that \<open>s'\<close> differs from
  \<open>s\<close> in nothing else; it is used to state what the handlers preserve.
\<close>

definition emissionOnly :: "state \<Rightarrow> state \<Rightarrow> bool" where
  "emissionOnly s s' \<longleftrightarrow>
     thisHost s' = thisHost s \<and> knownNodes s' = knownNodes s \<and>
     deadNodeRetries s' = deadNodeRetries s \<and> pendingAcks s' = pendingAcks s \<and>
     currentHeartbeat s' = currentHeartbeat s \<and>
     knownNodesModifiedFlag s' = knownNodesModifiedFlag s \<and> runningFlag s' = runningFlag s \<and>
     pingdata s' = pingdata s \<and> nowMillis s' = nowMillis s \<and> spawned s' = spawned s \<and>
     (\<forall>r. (heap s' r)\<lparr>emitCounter := 0\<rparr> = (heap s r)\<lparr>emitCounter := 0\<rparr>)"

section \<open>Example states\<close>

text \<open>
  A cluster of nodes \<open>10.0.0.i:9999\<close>, the node \<open>i\<close> stored under the pointer \<open>i\<close>; the
  local host is the node 10. The environment rounds the logarithm to three places and
  has an n-sigma timeout of 50.5 ms.
\<close>

definition exampleNode :: "nat \<Rightarrow> NodeStatus \<Rightarrow> 32 word \<Rightarrow> 8 word \<Rightarrow> Node" where
  "exampleNode i st hb ec =
     \<lparr>ip = (10, 0, 0, of_nat i), port = 9999, status = st, heartbeat = hb, timestamp = 0,
      pingMillis = PingNoData, emitCounter = ec\<rparr>"

definition exampleEnv :: env where
  "exampleEnv =
     \<lparr>mathLog = (\<lambda>n. if n = 2 then 693 / 1000 else if n = 3 then 1099 / 1000 else 0),
      nSigma = (\<lambda>w k. 101 / 2), shuffle = (\<lambda>xs. xs), netOutcome = (\<lambda>a. NetOk),
      heartbeatMillis = 500, broadcastFloor = - 100\<rparr>"

definition threeNodes :: state where
  "threeNodes =
     \<lparr>heap = (\<lambda>r. if r = 12 then exampleNode 12 StatusAlive 9 3
                   else exampleNode r StatusAlive 0 0),
      thisHost = 10,
      knownNodes = [(''10.0.0.10:9999'', 10), (''10.0.0.11:9999'', 11), (''10.0.0.12:9999'', 12)],
      updatedNodes = [(''10.0.0.12:9999'', 12)],
      deadNodeRetries = [], pendingAcks = [], currentHeartbeat = 8,
      knownNodesModifiedFlag = False, runningFlag = True, pingdata = [50], broadcasts = [],
      nowMillis = 1000, trace = [], spawned = []\<rparr>"

definition twoNodes :: state where
  "twoNodes =
     \<lparr>heap = (\<lambda>r. exampleNode r StatusAlive 0 0),
      thisHost = 10,
      knownNodes = [(''10.0.0.10:9999'', 10), (''10.0.0.11:9999'', 11)],
      updatedNodes = [],
      deadNodeRetries = [], pendingAcks = [], currentHeartbeat = 8,
      knownNodesModifiedFlag = False, runningFlag = True, pingdata = [50], broadcasts = [],
      nowMillis = 1000, trace = [], spawned = []\<rparr>"

definition examplePack :: "pendingAckType \<Rightarrow> ref \<Rightarrow> ref option \<Rightarrow> pendingAck" where
  "examplePack ty n cb =
     \<lparr>startTime = 0, pa_node = n, callback = cb, callbackCode = 5, packType = ty\<rparr>"

text \<open>A member record about the node 12 that is older than what the registry holds.\<close>

definition staleMember :: messageMember where
  "staleMember = \<lparr>m_node = 12, m_status = StatusDead, m_heartbeat = 5\<rparr>"

definition staleMessage :: message where
  "staleMessage = \<lparr>verb = verbPing, sender = 11, senderHeartbeat = 0,
                    members = [staleMember], broadcast = None\<rparr>"



text \<open>Pending acks that have all timed out, in the cluster of three and of two nodes.\<close>

definition sweepState :: state where
  "sweepState =
     threeNodes\<lparr>pendingAcks :=
       [(''10.0.0.11:9999:5'', examplePack packPing 11 None),
        (''10.0.0.12:9999:6'', examplePack packPingReq 12 (Some 11)),
        (''10.0.0.12:9999:5'', examplePack packNFP 12 (Some 11))]\<rparr>"


text \<open>The cluster of three nodes with the node 12 dead and given retry counters.\<close>

definition deadState :: "(string \<times> deadNodeCounter) list \<Rightarrow> state" where
  "deadState retries =
     threeNodes\<lparr>heap := (heap threeNodes)(12 := exampleNode 12 StatusDead 9 0),
                 deadNodeRetries := retries\<rparr>"

section \<open>Facts about the examples\<close>

lemma Address_example [simp]:
  "Address (exampleNode 10 st hb ec) = ''10.0.0.10:9999''"
  "Address (exampleNode 11 st hb ec) = ''10.0.0.11:9999''"
  "Address (exampleNode 12 st hb ec) = ''10.0.0.12:9999''"
  by (simp_all add: Address_def exampleNode_def formatInt.simps)

lemma exampleNode_sel [simp]:
  "status (exampleNode i st hb ec) = st"
  "heartbeat (exampleNode i st hb ec) = hb"
  "emitCounter (exampleNode i st hb ec) = ec"
  by (simp_all add: exampleNode_def)

lemma exampleEnv_sel [simp]:
  "mathLog exampleEnv 2 = 693 / 1000"
  "mathLog exampleEnv 3 = 1099 / 1000"
  "nSigma exampleEnv w k = 101 / 2"
  "shuffle exampleEnv xs = xs"
  "netOutcome exampleEnv a = NetOk"
  "broadcastFloor exampleEnv = - 100"
  "heartbeatMillis exampleEnv = 500"
  by (simp_all add: exampleEnv_def)

lemma threeNodes_sel [simp]:
  "heap threeNodes 10 = exampleNode 10 StatusAlive 0 0"
  "heap threeNodes 11 = exampleNode 11 StatusAlive 0 0"
  "heap threeNodes 12 = exampleNode 12 StatusAlive 9 3"
  "thisHost threeNodes = 10"
  "knownNodes threeNodes =
     [(''10.0.0.10:9999'', 10), (''10.0.0.11:9999'', 11), (''10.0.0.12:9999'', 12)]"
  "updatedNodes threeNodes = [(''10.0.0.12:9999'', 12)]"
  "deadNodeRetries threeNodes = []"
  "pendingAcks threeNodes = []"
  "currentHeartbeat threeNodes = 8"
  "knownNodesModifiedFlag threeNodes = False"
  "runningFlag threeNodes = True"
  "pingdata threeNodes = [50]"
  "broadcasts threeNodes = []"
  "nowMillis threeNodes = 1000"
  "trace threeNodes = []"
  "spawned threeNodes = []"
  by (simp_all add: threeNodes_def)

lemma twoNodes_sel [simp]:
  "heap twoNodes r = exampleNode r StatusAlive 0 0"
  "thisHost twoNodes = 10"
  "knownNodes twoNodes = [(''10.0.0.10:9999'', 10), (''10.0.0.11:9999'', 11)]"
  "updatedNodes twoNodes = []"
  "deadNodeRetries twoNodes = []"
  "pendingAcks twoNodes = []"
  "currentHeartbeat twoNodes = 8"
  "knownNodesModifiedFlag twoNodes = False"
  "runningFlag twoNodes = True"
  "pingdata twoNodes = [50]"
  "broadcasts twoNodes = []"
  "nowMillis twoNodes = 1000"
  "trace twoNodes = []"
  "spawned twoNodes = []"
  by (simp_all add: twoNodes_def)

lemma examplePack_sel [simp]:
  "startTime (examplePack ty n cb) = 0"
  "pa_node (examplePack ty n cb) = n"
  "callback (examplePack ty n cb) = cb"
  "callbackCode (examplePack ty n cb) = 5"
  "packType (examplePack ty n cb) = ty"
  by (simp_all add: examplePack_def)

lemma nm_length_simps [simp]:
  "nm_length [a, b] = 2" "nm_length [a, b, c] = 3"
  by (simp_all add: nm_length_def)

section \<open>Updates that change nothing\<close>

text \<open>
  Claim C9. For every node \<open>n\<close> and status \<open>st\<close> with \<open>n.status == st\<close>, the call
  \<open>updateNodeStatus(n, st, hb)\<close> is a no-op: the state it returns is the state it was
  given, so the trace has no new listener notification, and the emit counter, the
  timestamp, the status and the heartbeat of the node are what they were.
\<close>

theorem updateNodeStatus_same_status:
  assumes "status (heap s n) = st"
  shows "updateNodeStatus e n st hb s = s"
  using assms by (simp add: updateNodeStatus_def)

theorem updateNodeStatus_same_status_witness:
  "status (heap threeNodes 12) = StatusAlive \<and>
   updateNodeStatus exampleEnv 12 StatusAlive 20 threeNodes = threeNodes"
  using updateNodeStatus_same_status [of threeNodes 12 StatusAlive exampleEnv 20] by simp

text \<open>
  Claim C10. An Ack whose key (sender address, heartbeat) has no entry in the pending-ack
  table is ignored: the handler returns no error and the state it was given, so the
  table, the estimator's window and every node's ping time are unchanged and no goroutine
  relaying an Ack is started.
\<close>

theorem receiveVerbAckUDP_unknown_key:
  assumes "map_of (pendingAcks s) (ackKey s (sender msg) (senderHeartbeat msg)) = None"
  shows "receiveVerbAckUDP e msg s = Done (None, s)"
  using assms by (simp add: receiveVerbAckUDP_def)

theorem receiveVerbAckUDP_unknown_key_witness:
  "map_of (pendingAcks threeNodes)
     (ackKey threeNodes (sender (newMessage verbAck 12 7))
        (senderHeartbeat (newMessage verbAck 12 7))) = None \<and>
   receiveVerbAckUDP exampleEnv (newMessage verbAck 12 7) threeNodes = Done (None, threeNodes)"
  using receiveVerbAckUDP_unknown_key [of threeNodes "newMessage verbAck 12 7" exampleEnv]
  by simp

section \<open>The guard of the forward handler\<close>

text \<open>
  Claim C8. The guard \<open>len(msg.members) >= 0\<close> of \<open>receiveVerbForwardUDP\<close> holds of every
  message, so it protects nothing: on a message whose member list is empty the handler
  reads \<open>msg.members[0]\<close> out of range and panics instead of returning.
\<close>

theorem receiveVerbForwardUDP_empty_members:
  assumes "members msg = []"
  shows "0 \<le> int (length (members msg')) \<and>
         receiveVerbForwardUDP e msg s = Panicked IndexOutOfRange"
  using assms by (simp add: receiveVerbForwardUDP_def)

theorem receiveVerbForwardUDP_empty_members_witness:
  "members (newMessage verbPingRequest 12 7) = [] \<and>
   receiveVerbForwardUDP exampleEnv (newMessage verbPingRequest 12 7) threeNodes =
     Panicked IndexOutOfRange"
  using receiveVerbForwardUDP_empty_members
          [of "newMessage verbPingRequest 12 7" "newMessage verbPingRequest 12 7"
              exampleEnv threeNodes]
  by (simp add: newMessage_def)

section \<open>The deadline of a pending ack\<close>

lemma truncate_nonneg: "0 \<le> x \<Longrightarrow> truncate x = \<lfloor>x\<rfloor>"
  by (simp add: truncate_def)

text \<open>
  Claim C7, as the code has it. The deadline is the n-sigma value converted with
  \<open>uint32(...)\<close>, which discards the fraction: for a value \<open>x\<close> in the range of
  \<open>uint32\<close> it is the floor of \<open>x\<close> for a Ping and an NFP entry and twice the floor, in
  32-bit arithmetic, for a PingReq entry.
\<close>

theorem timeoutMillisOf_truncates:
  assumes "nSigma e (pingdata s) timeoutToleranceSigmas = x" and "0 \<le> x" and "x < 2 ^ 32"
  shows "unat (timeoutMillisOf e s pack) =
           (if packType pack = packPingReq then (2 * nat \<lfloor>x\<rfloor>) mod 2 ^ 32 else nat \<lfloor>x\<rfloor>)"
proof -
  have "0 \<le> \<lfloor>x\<rfloor>" using assms(2) by simp
  moreover have "\<lfloor>x\<rfloor> < 2 ^ 32" using assms(3) by (simp add: floor_less_iff)
  ultimately have u: "unat (word_of_int \<lfloor>x\<rfloor> :: 32 word) = nat \<lfloor>x\<rfloor>"
    by (simp add: unat_eq_nat_uint uint_word_of_int take_bit_int_eq_self)
  show ?thesis
    using assms(1,2) u
    by (simp add: timeoutMillisOf_def float_to_uint32_def truncate_nonneg unat_word_ariths
          mult.commute)
qed

theorem timeoutMillisOf_truncates_witness:
  "nSigma exampleEnv (pingdata threeNodes) timeoutToleranceSigmas = 101 / 2 \<and>
   unat (timeoutMillisOf exampleEnv threeNodes (examplePack packPing 11 None)) = 50 \<and>
   unat (timeoutMillisOf exampleEnv threeNodes (examplePack packPingReq 11 (Some 12))) = 100"
  using timeoutMillisOf_truncates
          [of exampleEnv threeNodes "101 / 2" "examplePack packPing 11 None"]
        timeoutMillisOf_truncates
          [of exampleEnv threeNodes "101 / 2" "examplePack packPingReq 11 (Some 12)"]
  by simp

text \<open>
  Claim C7 as stated fails: with an n-sigma value of 50.5 ms the deadline of a Ping entry
  is 50 ms, and the ceiling is 51.
\<close>

theorem timeoutMillisOf_not_ceiling:
  "uint (timeoutMillisOf exampleEnv threeNodes (examplePack packPing 11 None)) = 50 \<and>
   \<lceil>nSigma exampleEnv (pingdata threeNodes) timeoutToleranceSigmas\<rceil> = 51 \<and>
   uint (timeoutMillisOf exampleEnv threeNodes (examplePack packPing 11 None)) \<noteq>
     \<lceil>nSigma exampleEnv (pingdata threeNodes) timeoutToleranceSigmas\<rceil>"
  by (simp add: timeoutMillisOf_def float_to_uint32_def truncate_def)

section \<open>What the basic operations leave alone\<close>

lemma Address_cong: "ip a = ip b \<Longrightarrow> port a = port b \<Longrightarrow> Address a = Address b"
  by (simp add: Address_def)

lemma logEvent_fields [simp]:
  "heap (logEvent ev s) = heap s"
  "thisHost (logEvent ev s) = thisHost s"
  "knownNodes (logEvent ev s) = knownNodes s"
  "updatedNodes (logEvent ev s) = updatedNodes s"
  "deadNodeRetries (logEvent ev s) = deadNodeRetries s"
  "pendingAcks (logEvent ev s) = pendingAcks s"
  "currentHeartbeat (logEvent ev s) = currentHeartbeat s"
  "knownNodesModifiedFlag (logEvent ev s) = knownNodesModifiedFlag s"
  "runningFlag (logEvent ev s) = runningFlag s"
  "pingdata (logEvent ev s) = pingdata s"
  "broadcasts (logEvent ev s) = broadcasts s"
  "nowMillis (logEvent ev s) = nowMillis s"
  "spawned (logEvent ev s) = spawned s"
  "trace (logEvent ev s) = trace s @ [ev]"
  by (simp_all add: logEvent_def)

lemma Touch_fields [simp]:
  "thisHost (Touch n s) = thisHost s"
  "knownNodes (Touch n s) = knownNodes s"
  "updatedNodes (Touch n s) = updatedNodes s"
  "deadNodeRetries (Touch n s) = deadNodeRetries s"
  "pendingAcks (Touch n s) = pendingAcks s"
  "currentHeartbeat (Touch n s) = currentHeartbeat s"
  "pingdata (Touch n s) = pingdata s"
  "nowMillis (Touch n s) = nowMillis s"
  "spawned (Touch n s) = spawned s"
  "trace (Touch n s) = trace s"
  "Address (heap (Touch n s) r) = Address (heap s r)"
  "status (heap (Touch n s) r) = status (heap s r)"
  "heartbeat (heap (Touch n s) r) = heartbeat (heap s r)"
  by (simp_all add: Touch_def Address_def)

lemma decEmitCounter_fields [simp]:
  "thisHost (decEmitCounter n s) = thisHost s"
  "knownNodes (decEmitCounter n s) = knownNodes s"
  "updatedNodes (decEmitCounter n s) = updatedNodes s"
  "deadNodeRetries (decEmitCounter n s) = deadNodeRetries s"
  "pendingAcks (decEmitCounter n s) = pendingAcks s"
  "currentHeartbeat (decEmitCounter n s) = currentHeartbeat s"
  "pingdata (decEmitCounter n s) = pingdata s"
  "nowMillis (decEmitCounter n s) = nowMillis s"
  "spawned (decEmitCounter n s) = spawned s"
  "trace (decEmitCounter n s) = trace s"
  "broadcasts (decEmitCounter n s) = broadcasts s"
  "Address (heap (decEmitCounter n s) r) = Address (heap s r)"
  "status (heap (decEmitCounter n s) r) = status (heap s r)"
  "heartbeat (heap (decEmitCounter n s) r) = heartbeat (heap s r)"
  by (simp_all add: decEmitCounter_def Address_def)

lemma setPingMillis_fields [simp]:
  "thisHost (setPingMillis n v s) = thisHost s"
  "knownNodes (setPingMillis n v s) = knownNodes s"
  "pendingAcks (setPingMillis n v s) = pendingAcks s"
  "currentHeartbeat (setPingMillis n v s) = currentHeartbeat s"
  "pingdata (setPingMillis n v s) = pingdata s"
  "nowMillis (setPingMillis n v s) = nowMillis s"
  "spawned (setPingMillis n v s) = spawned s"
  "trace (setPingMillis n v s) = trace s"
  "Address (heap (setPingMillis n v s) r) = Address (heap s r)"
  "status (heap (setPingMillis n v s) r) = status (heap s r)"
  "heartbeat (heap (setPingMillis n v s) r) = heartbeat (heap s r)"
  by (simp_all add: setPingMillis_def Address_def)

lemma updateNodeStatus_fields [simp]:
  "thisHost (updateNodeStatus e n st hb s) = thisHost s"
  "knownNodes (updateNodeStatus e n st hb s) = knownNodes s"
  "pendingAcks (updateNodeStatus e n st hb s) = pendingAcks s"
  "currentHeartbeat (updateNodeStatus e n st hb s) = currentHeartbeat s"
  "pingdata (updateNodeStatus e n st hb s) = pingdata s"
  "nowMillis (updateNodeStatus e n st hb s) = nowMillis s"
  "spawned (updateNodeStatus e n st hb s) = spawned s"
  "broadcasts (updateNodeStatus e n st hb s) = broadcasts s"
  by (simp_all add: updateNodeStatus_def Let_def doStatusUpdate_def)

lemma updateNodeStatus_Address [simp]:
  "Address (heap (updateNodeStatus e n st hb s) r) = Address (heap s r)"
  by (simp add: updateNodeStatus_def Let_def doStatusUpdate_def Address_def)

lemma updateNodeStatus_other:
  "r \<noteq> n \<Longrightarrow> heap (updateNodeStatus e n st hb s) r = heap s r"
  by (simp add: updateNodeStatus_def Let_def doStatusUpdate_def)

lemma updateNodeStatus_status [simp]:
  "status (heap (updateNodeStatus e n st hb s) n) = st"
  by (simp add: updateNodeStatus_def Let_def doStatusUpdate_def)

lemma updateNodeStatus_heartbeat:
  "heartbeat (heap (updateNodeStatus e n st hb s) r) =
     (if r = n \<and> status (heap s n) \<noteq> st then hb else heartbeat (heap s r))"
  by (simp add: updateNodeStatus_def Let_def doStatusUpdate_def)

lemma updateNodeStatus_status_any:
  "status (heap (updateNodeStatus e n st hb s) r) = (if r = n then st else status (heap s r))"
  by (simp add: updateNodeStatus_def Let_def doStatusUpdate_def)

lemma AddNode_fields:
  assumes "AddNode e n s = Done s'"
  shows "thisHost s' = thisHost s" "pendingAcks s' = pendingAcks s"
    "currentHeartbeat s' = currentHeartbeat s" "pingdata s' = pingdata s"
    "nowMillis s' = nowMillis s" "spawned s' = spawned s"
    "Address (heap s' r) = Address (heap s r)"
    "heartbeat (heap s' r) = heartbeat (heap s r)"
    "status (heap s' r) = StatusDead \<longleftrightarrow> status (heap s r) = StatusDead"
  using assms
  by (auto simp: AddNode_def andThen_def UpdateNodeStatus_def Let_def
        updateNodeStatus_heartbeat updateNodeStatus_status_any split: if_splits)

lemma AddNode_trace_no_update:
  assumes "AddNode e n s = Done s'" and "status (heap s n) \<noteq> StatusUnknown"
  shows "heap s' = (heap s)(n := heap s' n)"
  using assms
  by (auto simp: AddNode_def andThen_def Let_def Touch_def split: if_splits)

section \<open>Merging the statuses of a message\<close>

lemma member_heartbeat_mono:
  assumes "updateStatusFromMember e m s = Done s'"
  shows "heartbeat (heap s r) \<le> heartbeat (heap s' r)"
  using assms
  by (auto simp: updateStatusFromMember_def updateNodeStatus_heartbeat AddNode_fields(8)
        split: if_splits NodeStatus.splits)

lemma members_heartbeat_mono:
  "updateStatusesFromMembers e ms s = Done s' \<Longrightarrow> heartbeat (heap s r) \<le> heartbeat (heap s' r)"
proof (induction ms arbitrary: s)
  case Nil
  then show ?case by simp
next
  case (Cons m ms)
  then obtain s1 where 1: "updateStatusFromMember e m s = Done s1"
    and 2: "updateStatusesFromMembers e ms s1 = Done s'"
    by (auto simp: andThen_def split: res.splits)
  from member_heartbeat_mono [OF 1] Cons.IH [OF 2] show ?case
    by (rule order_trans)
qed

lemma message_heartbeat_mono:
  assumes "updateStatusesFromMessage e msg s = Done s'"
  shows "heartbeat (heap s r) \<le> heartbeat (heap s' r)"
proof -
  from assms obtain s1 where 1: "updateStatusesFromMembers e (members msg) s = Done s1"
    and 2: "(let s2 = (if senderHeartbeat msg > heartbeat (heap s1 (sender msg))
                       then updateNodeStatus e (sender msg) StatusAlive (senderHeartbeat msg) s1
                       else s1)
             in if \<not> nm_contains s2 (knownNodes s2) (sender msg)
                then AddNode e (sender msg) s2 else Done s2) = Done s'"
    by (auto simp: updateStatusesFromMessage_def andThen_def split: res.splits)
  have "heartbeat (heap s1 r) \<le> heartbeat (heap s' r)"
    using 2
    by (auto simp: Let_def updateNodeStatus_heartbeat AddNode_fields(8) split: if_splits)
  with members_heartbeat_mono [OF 1] show ?thesis
    by (rule order_trans)
qed




section \<open>The heartbeat of a node\<close>

lemma staleMember_dropped:
  "updateStatusFromMember exampleEnv staleMember threeNodes =
     Done (logEvent (LogMessageIsOld 9 5) threeNodes)"
  by (simp add: updateStatusFromMember_def staleMember_def)

lemma staleMessage_merged:
  "updateStatusesFromMessage exampleEnv staleMessage threeNodes =
     Done (logEvent (LogMessageIsOld 9 5) threeNodes)"
  by (simp add: updateStatusesFromMessage_def staleMessage_def staleMember_dropped andThen_def
        nm_contains_def)

text \<open>
  Claim C1, as the code has it. Across the status merge of a received message
  (\<open>updateStatusesFromMessage\<close>) the heartbeat of every node is non-decreasing: a member
  record whose heartbeat is lower than the node's is logged and dropped, the state being
  otherwise unchanged. \<open>updateNodeStatus\<close> itself drops nothing: called with another
  status and a lower heartbeat it logs the decrease and stores the lower heartbeat.
\<close>

theorem heartbeat_monotone_in_merge_only:
  "(updateStatusesFromMessage e msg s = Done s' \<longrightarrow> heartbeat (heap s r) \<le> heartbeat (heap s' r)) \<and>
   (m_heartbeat m < heartbeat (heap s (m_node m)) \<longrightarrow>
      updateStatusFromMember e m s =
        Done (logEvent (LogMessageIsOld (heartbeat (heap s (m_node m))) (m_heartbeat m)) s)) \<and>
   (status (heap s n) \<noteq> st \<and> hb < heartbeat (heap s n) \<longrightarrow>
      heartbeat (heap (updateNodeStatus e n st hb s) n) = hb \<and>
      LogDecreasingHeartbeat (heartbeat (heap s n)) hb \<in> set (trace (updateNodeStatus e n st hb s)))"
proof (intro conjI impI)
  assume "updateStatusesFromMessage e msg s = Done s'"
  then show "heartbeat (heap s r) \<le> heartbeat (heap s' r)"
    by (rule message_heartbeat_mono)
next
  assume "m_heartbeat m < heartbeat (heap s (m_node m))"
  then show "updateStatusFromMember e m s =
        Done (logEvent (LogMessageIsOld (heartbeat (heap s (m_node m))) (m_heartbeat m)) s)"
    by (simp add: updateStatusFromMember_def)
next
  assume a: "status (heap s n) \<noteq> st \<and> hb < heartbeat (heap s n)"
  then show "heartbeat (heap (updateNodeStatus e n st hb s) n) = hb"
    by (simp add: updateNodeStatus_heartbeat)
  from a show "LogDecreasingHeartbeat (heartbeat (heap s n)) hb
      \<in> set (trace (updateNodeStatus e n st hb s))"
    by (simp add: updateNodeStatus_def Let_def doStatusUpdate_def)
qed

theorem heartbeat_monotone_in_merge_only_witness:
  "updateStatusesFromMessage exampleEnv staleMessage threeNodes =
     Done (logEvent (LogMessageIsOld 9 5) threeNodes) \<and>
   heartbeat (heap threeNodes 12) \<le> heartbeat (heap (logEvent (LogMessageIsOld 9 5) threeNodes) 12) \<and>
   m_heartbeat staleMember < heartbeat (heap threeNodes (m_node staleMember)) \<and>
   updateStatusFromMember exampleEnv staleMember threeNodes =
     Done (logEvent (LogMessageIsOld 9 5) threeNodes) \<and>
   status (heap threeNodes 12) \<noteq> StatusDead \<and> (8 :: 32 word) < heartbeat (heap threeNodes 12) \<and>
   heartbeat (heap (updateNodeStatus exampleEnv 12 StatusDead 8 threeNodes) 12) = 8 \<and>
   LogDecreasingHeartbeat 9 8 \<in> set (trace (updateNodeStatus exampleEnv 12 StatusDead 8 threeNodes))"
  using heartbeat_monotone_in_merge_only
          [of exampleEnv staleMessage threeNodes "logEvent (LogMessageIsOld 9 5) threeNodes" 12
              staleMember 12 StatusDead 8]
        staleMessage_merged
  by (simp add: staleMember_def)

lemma timeoutMillis_example:
  "pingdata s = pingdata threeNodes \<Longrightarrow>
   timeoutMillisOf exampleEnv s pack = (if packType pack = packPingReq then 100 else 50)"
  by (simp add: timeoutMillisOf_def float_to_uint32_def truncate_def)

text \<open>
  Claim C1 as stated fails. The node 12 has the heartbeat 9 and the local heartbeat is 8
  (as after a message of the node 12 with the heartbeat 9). Marking the node dead with
  \<open>currentHeartbeat\<close>, as the timeout check does for an expired NFP entry, lowers its
  heartbeat to 8.
\<close>

theorem updateNodeStatus_lowers_heartbeat:
  "heartbeat (heap threeNodes 12) = 9 \<and> currentHeartbeat threeNodes = 8 \<and>
   heartbeat (heap (updateNodeStatus exampleEnv 12 StatusDead (currentHeartbeat threeNodes)
                      threeNodes) 12) = 8 \<and>
   (\<exists>s'. timeoutCheckSweep exampleEnv
            (threeNodes\<lparr>pendingAcks := [(''10.0.0.12:9999:5'', examplePack packNFP 12 (Some 11))]\<rparr>)
          = Done s' \<and> heartbeat (heap s' 12) = 8)"
  by (simp add: updateNodeStatus_heartbeat timeoutCheckSweep_def checkPendingAck_def elapsed_def
        GetNowInMillis_def timeoutMillis_example nm_contains_def andThen_def)

section \<open>The local host is not declared dead by a message\<close>





section \<open>What a transmission preserves\<close>

lemma emissionOnly_refl [simp]: "emissionOnly s s"
  by (simp add: emissionOnly_def)

lemma emissionOnly_trans: "emissionOnly s s1 \<Longrightarrow> emissionOnly s1 s2 \<Longrightarrow> emissionOnly s s2"
  by (simp add: emissionOnly_def)

lemma emissionOnly_logEvent [simp]: "emissionOnly s (logEvent ev s)"
  by (simp add: emissionOnly_def)

lemma emissionOnly_decEmitCounter [simp]: "emissionOnly s (decEmitCounter n s)"
  by (simp add: emissionOnly_def decEmitCounter_def)

lemma emissionOnly_updatedNodes [simp]: "emissionOnly s (s\<lparr>updatedNodes := u\<rparr>)"
  by (simp add: emissionOnly_def)

lemma emissionOnly_broadcasts [simp]: "emissionOnly s (s\<lparr>broadcasts := b\<rparr>)"
  by (simp add: emissionOnly_def)


lemma pruneUpdatedNodes_emissionOnly:
  "pruneUpdatedNodes ns cp s = (cp', s') \<Longrightarrow> emissionOnly s s'"
proof (induction ns arbitrary: cp s)
  case Nil
  then show ?case by simp
next
  case (Cons n ns)
  show ?case
  proof (cases "sint (emitCounter (heap s n)) \<le> 0")
    case True
    with Cons.prems have "pruneUpdatedNodes ns cp
             ((logEvent (LogRemovingUpdated (Address (heap s n))) s)
                \<lparr>updatedNodes := nm_delete s (updatedNodes s) n\<rparr>) = (cp', s')"
      by simp
    from Cons.IH [OF this] show ?thesis
      by (simp add: emissionOnly_def)
  next
    case False
    with Cons.prems have "pruneUpdatedNodes ns (nm_add s cp n) s = (cp', s')"
      by simp
    from Cons.IH [OF this] show ?thesis .
  qed
qed

lemma getRandomUpdatedNodes_emissionOnly:
  "getRandomUpdatedNodes sz ex s = Done (ns, s') \<Longrightarrow> emissionOnly s s'"
  by (auto simp: getRandomUpdatedNodes_def Let_def split: prod.splits if_splits
        dest: pruneUpdatedNodes_emissionOnly)

lemma addMembers_emissionOnly:
  "addMembers ns msg s = (r, s') \<Longrightarrow> emissionOnly s s'"
proof (induction ns arbitrary: msg s)
  case Nil
  then show ?case by simp
next
  case (Cons n ns)
  show ?case
  proof (cases "addMember msg n (status (heap s n)) (heartbeat (heap s n))")
    case (Inl err)
    with Cons.prems show ?thesis by simp
  next
    case (Inr msg1)
    with Cons.prems have "addMembers ns msg1 (decEmitCounter n s) = (r, s')" by simp
    from Cons.IH [OF this] show ?thesis
      by (rule emissionOnly_trans [OF emissionOnly_decEmitCounter])
  qed
qed

lemma emitBroadcast_emissionOnly:
  "emitBroadcast e msg s = (msg', s') \<Longrightarrow> emissionOnly s s'"
  by (auto simp: emitBroadcast_def getBroadcastToEmit_def Let_def emissionOnly_def
        split: prod.splits option.splits list.splits)

lemma fold_decEmitCounter_emissionOnly:
  "emissionOnly s (fold (\<lambda>m. decEmitCounter (m_node m)) ms s)"
proof (induction ms arbitrary: s)
  case Nil
  then show ?case by simp
next
  case (Cons m ms)
  show ?case
    using emissionOnly_trans [OF emissionOnly_decEmitCounter Cons.IH]
    by simp
qed

lemma andThen_weak_cong: "r = r' \<Longrightarrow> andThen r f = andThen r' f"
  by simp

lemma andThen_Done_iff:
  "andThen r f = Done y \<longleftrightarrow> (\<exists>x. r = Done x \<and> f x = Done y)"
  by (cases r) (simp_all add: andThen_def)

lemma transmitVerbGenericUDP_emissionOnly:
  assumes "transmitVerbGenericUDP e n f v code s = Done (err, s')"
  shows "emissionOnly s s'"
proof (cases "netOutcome e (Address (heap s n)) = ResolveFails")
  case True
  with assms have "s' = s"
    unfolding transmitVerbGenericUDP_def by (simp cong: if_weak_cong)
  then show ?thesis by simp
next
  case r: False
  show ?thesis
  proof (cases "netOutcome e (Address (heap s n)) = DialFails")
    case True
    with assms r have "s' = s"
      unfolding transmitVerbGenericUDP_def by (simp cong: if_weak_cong)
    then show ?thesis by simp
  next
    case d: False
    define msg1 where "msg1 = (case f of
                      None \<Rightarrow> newMessage v (thisHost s) code
                    | Some f \<Rightarrow> (case addMember (newMessage v (thisHost s) code) f StatusForwardTo code of
                                  Inl err \<Rightarrow> newMessage v (thisHost s) code | Inr m \<Rightarrow> m))"
    define k where "k = (\<lambda>(nodes0, s1).
                let nodes = (if length nodes0 = 0
                             then getRandomNodes e s1 (knownNodes s1)
                                    (nat (pingRequestCount e s1)) [n, thisHost s1]
                             else nodes0)
                in case addMembers nodes msg1 s1 of
                     (Inl err, s2) \<Rightarrow> Done (Some err, s2)
                   | (Inr msg2, s2) \<Rightarrow>
                       (case emitBroadcast e msg2 s2 of (msg3, s3) \<Rightarrow>
                          if netOutcome e (Address (heap s n)) = WriteFails
                          then Done (Some ErrWrite, s3)
                          else
                            let s4 = logEvent (Datagram (Address (heap s3 n)) msg3) s3;
                                s5 = fold (\<lambda>m. decEmitCounter (m_node m)) (members msg3) s4
                            in Done (None, logEvent (LogSent v (Address (heap s5 n))) s5)))"
    have "transmitVerbGenericUDP e n f v code s =
            andThen (getRandomUpdatedNodes (pingRequestCount e s) [n, thisHost s] s) k"
      unfolding transmitVerbGenericUDP_def k_def msg1_def Let_def using r d
      by (simp only: if_False)
    with assms obtain nodes0 s1 where
      1: "getRandomUpdatedNodes (pingRequestCount e s) [n, thisHost s] s = Done (nodes0, s1)"
      and 2: "k (nodes0, s1) = Done (err, s')"
      by (auto simp: andThen_Done_iff)
    note e1 = getRandomUpdatedNodes_emissionOnly [OF 1]
    define nodes where "nodes = (if length nodes0 = 0
                             then getRandomNodes e s1 (knownNodes s1)
                                    (nat (pingRequestCount e s1)) [n, thisHost s1]
                             else nodes0)"
    obtain x s2 where 3: "addMembers nodes msg1 s1 = (x, s2)"
      by (cases "addMembers nodes msg1 s1")
    note e2 = addMembers_emissionOnly [OF 3]
    have "emissionOnly s2 s'"
    proof (cases x)
      case (Inl a)
      with 2 3 have "s' = s2"
        unfolding k_def nodes_def [symmetric] Let_def by (simp add: nodes_def)
      then show ?thesis by simp
    next
      case (Inr msg2)
      obtain msg3 s3 where 4: "emitBroadcast e msg2 s2 = (msg3, s3)"
        by (cases "emitBroadcast e msg2 s2")
      note e3 = emitBroadcast_emissionOnly [OF 4]
      show ?thesis
      proof (cases "netOutcome e (Address (heap s n)) = WriteFails")
        case True
        with 2 3 4 Inr have "s' = s3"
          unfolding k_def Let_def by (simp add: nodes_def)
        with e3 show ?thesis by simp
      next
        case False
        define s5 where "s5 = fold (\<lambda>m. decEmitCounter (m_node m)) (members msg3)
               (logEvent (Datagram (Address (heap s3 n)) msg3) s3)"
        from False 2 3 4 Inr have "s' = logEvent (LogSent v (Address (heap s5 n))) s5"
          unfolding k_def Let_def by (simp add: nodes_def s5_def)
        moreover have "emissionOnly s3 s5"
          unfolding s5_def
          by (rule emissionOnly_trans [OF emissionOnly_logEvent fold_decEmitCounter_emissionOnly])
        ultimately have "emissionOnly s3 s'"
          using emissionOnly_trans [OF _ emissionOnly_logEvent] by simp
        with e3 show ?thesis by (rule emissionOnly_trans)
      qed
    qed
    with e1 e2 show ?thesis
      using emissionOnly_trans by blast
  qed
qed


section \<open>The local heartbeat\<close>

lemma member_currentHeartbeat:
  assumes "updateStatusFromMember e m s = Done s'"
  shows "currentHeartbeat s' = currentHeartbeat s"
  using assms
  by (auto simp: updateStatusFromMember_def AddNode_fields(3) split: if_splits NodeStatus.splits)

lemma members_currentHeartbeat:
  "updateStatusesFromMembers e ms s = Done s' \<Longrightarrow> currentHeartbeat s' = currentHeartbeat s"
proof (induction ms arbitrary: s)
  case Nil
  then show ?case by simp
next
  case (Cons m ms)
  then obtain s1 where 1: "updateStatusFromMember e m s = Done s1"
    and 2: "updateStatusesFromMembers e ms s1 = Done s'"
    by (auto simp: andThen_Done_iff)
  from member_currentHeartbeat [OF 1] Cons.IH [OF 2] show ?case by simp
qed

lemma message_currentHeartbeat:
  assumes "updateStatusesFromMessage e msg s = Done s'"
  shows "currentHeartbeat s' = currentHeartbeat s"
proof -
  from assms obtain s1 where 1: "updateStatusesFromMembers e (members msg) s = Done s1"
    and 2: "(let s2 = (if senderHeartbeat msg > heartbeat (heap s1 (sender msg))
                       then updateNodeStatus e (sender msg) StatusAlive (senderHeartbeat msg) s1
                       else s1)
             in if \<not> nm_contains s2 (knownNodes s2) (sender msg)
                then AddNode e (sender msg) s2 else Done s2) = Done s'"
    by (auto simp: updateStatusesFromMessage_def andThen_Done_iff)
  have "currentHeartbeat s' = currentHeartbeat s1"
    using 2 by (auto simp: Let_def AddNode_fields(3) split: if_splits)
  with members_currentHeartbeat [OF 1] show ?thesis by simp
qed

lemma receiveBroadcast_currentHeartbeat [simp]:
  "currentHeartbeat (receiveBroadcast b s) = currentHeartbeat s"
  by (simp add: receiveBroadcast_def split: option.splits)

lemma transmit_currentHeartbeat:
  "transmitVerbGenericUDP e n f v code s = Done (err, s') \<Longrightarrow>
   currentHeartbeat s' = currentHeartbeat s"
  by (drule transmitVerbGenericUDP_emissionOnly) (simp add: emissionOnly_def)

lemma receiveVerbAckUDP_currentHeartbeat:
  "receiveVerbAckUDP e msg s = Done (err, s') \<Longrightarrow> currentHeartbeat s' = currentHeartbeat s"
  by (auto simp: receiveVerbAckUDP_def Let_def notePingResponseTime_def
        split: if_splits option.splits)

lemma receiveVerbForwardUDP_currentHeartbeat:
  assumes "receiveVerbForwardUDP e msg s = Done (err, s')"
  shows "currentHeartbeat s' = currentHeartbeat s"
proof (cases "members msg")
  case Nil
  with assms show ?thesis by (simp add: receiveVerbForwardUDP_def)
next
  case (Cons member ms)
  show ?thesis
  proof (cases "m_status member = StatusForwardTo")
    case True
    with assms Cons obtain s1 where
      "transmitVerbGenericUDP e (m_node member) None verbNonForwardingPing (m_heartbeat member) s1
         = Done (err, s')" and "currentHeartbeat s1 = currentHeartbeat s"
      by (simp add: receiveVerbForwardUDP_def Let_def)
    then show ?thesis
      using transmit_currentHeartbeat by fastforce
  next
    case False
    with assms Cons show ?thesis by (simp add: receiveVerbForwardUDP_def)
  qed
qed

lemma synchronizeHeartbeat_unat:
  "unat (currentHeartbeat (synchronizeHeartbeat msg s)) =
     (if 0 < unat (senderHeartbeat msg) \<and>
         unat (currentHeartbeat s) < unat (senderHeartbeat msg) - 1
      then unat (senderHeartbeat msg) - 1 else unat (currentHeartbeat s))"
proof (cases "senderHeartbeat msg = 0")
  case True
  then show ?thesis by (simp add: synchronizeHeartbeat_def)
next
  case False
  then have "0 < unat (senderHeartbeat msg)"
    by (simp add: unat_gt_0)
  then have "unat (senderHeartbeat msg - 1) = unat (senderHeartbeat msg) - 1"
    by (simp add: unat_minus_one False)
  then show ?thesis
    using False by (simp add: synchronizeHeartbeat_def word_less_nat_alt unat_gt_0)
qed

text \<open>
  Claim C5. When the handler of a received datagram returns, the local heartbeat is the
  sender's heartbeat minus one if the sender's heartbeat is positive and its predecessor
  is greater than the local heartbeat before, and the local heartbeat before otherwise
  (read as numbers: the subtraction does not wrap). So the handler never lowers the local
  heartbeat, and a sender heartbeat of 0 leaves it as it is.
\<close>

theorem heartbeat_synchronisation:
  assumes "receiveMessageUDP e (Inr msg) s = Done (err, s')"
  shows "unat (currentHeartbeat s') =
           (if 0 < unat (senderHeartbeat msg) \<and>
               unat (currentHeartbeat s) < unat (senderHeartbeat msg) - 1
            then unat (senderHeartbeat msg) - 1 else unat (currentHeartbeat s)) \<and>
         currentHeartbeat s \<le> currentHeartbeat s' \<and>
         (senderHeartbeat msg = 0 \<longrightarrow> currentHeartbeat s' = currentHeartbeat s)"
proof -
  define s2 where "s2 = synchronizeHeartbeat msg
      (logEvent (LogGot (verb msg) (Address (heap s (sender msg))) (senderHeartbeat msg)) s)"
  from assms obtain s3 where 1: "updateStatusesFromMessage e msg s2 = Done s3"
    and 2: "(case verb msg of
               verbPing \<Rightarrow> receiveVerbPingUDP e msg (receiveBroadcast (broadcast msg) s3)
             | verbAck \<Rightarrow> receiveVerbAckUDP e msg (receiveBroadcast (broadcast msg) s3)
             | verbPingRequest \<Rightarrow> receiveVerbForwardUDP e msg (receiveBroadcast (broadcast msg) s3)
             | verbNonForwardingPing \<Rightarrow>
                 receiveVerbNonForwardPingUDP e msg (receiveBroadcast (broadcast msg) s3))
            = Done (err, s')"
    unfolding receiveMessageUDP_def s2_def Let_def
    by (auto simp: andThen_Done_iff)
  have "currentHeartbeat s' = currentHeartbeat (receiveBroadcast (broadcast msg) s3)"
    using 2
    by (cases "verb msg")
       (simp_all add: receiveVerbPingUDP_def receiveVerbNonForwardPingUDP_def
          transmitVerbAckUDP_def transmit_currentHeartbeat receiveVerbAckUDP_currentHeartbeat
          receiveVerbForwardUDP_currentHeartbeat)
  with message_currentHeartbeat [OF 1] have eq: "currentHeartbeat s' = currentHeartbeat s2"
    by simp
  have u: "unat (currentHeartbeat s2) =
           (if 0 < unat (senderHeartbeat msg) \<and>
               unat (currentHeartbeat s) < unat (senderHeartbeat msg) - 1
            then unat (senderHeartbeat msg) - 1 else unat (currentHeartbeat s))"
    unfolding s2_def by (simp add: synchronizeHeartbeat_unat)
  have "unat (currentHeartbeat s) \<le> unat (currentHeartbeat s2)"
    unfolding u by simp
  then have le: "currentHeartbeat s \<le> currentHeartbeat s2"
    by (simp add: word_le_nat_alt)
  have z: "senderHeartbeat msg = 0 \<Longrightarrow> currentHeartbeat s2 = currentHeartbeat s"
    unfolding s2_def by (simp add: synchronizeHeartbeat_def)
  from eq u le z show ?thesis by simp
qed

lemma updateNodeStatus_noop:
  "status (heap s n) = st \<Longrightarrow> updateNodeStatus e n st hb s = s"
  by (simp add: updateNodeStatus_def)

lemma ack_received:
  "receiveMessageUDP exampleEnv (Inr (newMessage verbAck 11 20)) threeNodes =
     Done (None, synchronizeHeartbeat (newMessage verbAck 11 20)
                   (logEvent (LogGot verbAck ''10.0.0.11:9999'' 20) threeNodes))"
  "receiveMessageUDP exampleEnv (Inr (newMessage verbAck 11 0)) threeNodes =
     Done (None, synchronizeHeartbeat (newMessage verbAck 11 0)
                   (logEvent (LogGot verbAck ''10.0.0.11:9999'' 0) threeNodes))"
  by (simp_all add: receiveMessageUDP_def newMessage_def synchronizeHeartbeat_def
        updateStatusesFromMessage_def updateNodeStatus_noop andThen_def nm_contains_def
        receiveBroadcast_def receiveVerbAckUDP_def ackKey_def Let_def)

theorem heartbeat_synchronisation_witness:
  "receiveMessageUDP exampleEnv (Inr (newMessage verbAck 11 20)) threeNodes =
     Done (None, synchronizeHeartbeat (newMessage verbAck 11 20)
                   (logEvent (LogGot verbAck ''10.0.0.11:9999'' 20) threeNodes)) \<and>
   unat (currentHeartbeat threeNodes) = 8 \<and>
   unat (currentHeartbeat (synchronizeHeartbeat (newMessage verbAck 11 20)
                   (logEvent (LogGot verbAck ''10.0.0.11:9999'' 20) threeNodes))) = 19 \<and>
   receiveMessageUDP exampleEnv (Inr (newMessage verbAck 11 0)) threeNodes =
     Done (None, synchronizeHeartbeat (newMessage verbAck 11 0)
                   (logEvent (LogGot verbAck ''10.0.0.11:9999'' 0) threeNodes)) \<and>
   senderHeartbeat (newMessage verbAck 11 0) = 0 \<and>
   currentHeartbeat (synchronizeHeartbeat (newMessage verbAck 11 0)
                   (logEvent (LogGot verbAck ''10.0.0.11:9999'' 0) threeNodes)) =
     currentHeartbeat threeNodes"
  using heartbeat_synchronisation [OF ack_received(1)]
        heartbeat_synchronisation [OF ack_received(2)]
        ack_received
  by (simp add: newMessage_def)

section \<open>The sweep of the pending-ack table\<close>




lemma markDead_fields:
  "knownNodes (setPingMillis c v (updateNodeStatus e n StatusDead hb s)) = knownNodes s"
  "pingdata (setPingMillis c v (updateNodeStatus e n StatusDead hb s)) = pingdata s"
  "nowMillis (setPingMillis c v (updateNodeStatus e n StatusDead hb s)) = nowMillis s"
  "spawned (setPingMillis c v (updateNodeStatus e n StatusDead hb s)) = spawned s"
  "pendingAcks (setPingMillis c v (updateNodeStatus e n StatusDead hb s)) = pendingAcks s"
  "Address (heap (setPingMillis c v (updateNodeStatus e n StatusDead hb s)) r) = Address (heap s r)"
  "status (heap (setPingMillis c v (updateNodeStatus e n StatusDead hb s)) r) =
     (if r = n then StatusDead else status (heap s r))"
  by (simp_all add: updateNodeStatus_status_any)










section \<open>Forwarding a ping that timed out\<close>

lemma ackKey_stable:
  "Address (heap s1 n) = Address (heap s n) \<Longrightarrow> ackKey s1 n code = ackKey s n code"
  by (simp add: ackKey_def)






lemma emitCount_example:
  "knownNodes s = knownNodes threeNodes \<Longrightarrow> emitCount exampleEnv s = 3"
  "knownNodes s = knownNodes twoNodes \<Longrightarrow> emitCount exampleEnv s = 2"
  by (simp_all add: emitCount_def lambda_def truncate_def)



lemma sweepState_sel [simp]:
  "pendingAcks sweepState =
       [(''10.0.0.11:9999:5'', examplePack packPing 11 None),
        (''10.0.0.12:9999:6'', examplePack packPingReq 12 (Some 11)),
        (''10.0.0.12:9999:5'', examplePack packNFP 12 (Some 11))]"
  "knownNodes sweepState = knownNodes threeNodes"
  "heap sweepState = heap threeNodes"
  "nowMillis sweepState = 1000"
  by (simp_all add: sweepState_def)






lemma Address_update [simp]:
  "Address (n\<lparr>timestamp := a\<rparr>) = Address n"
  "Address (n\<lparr>status := b\<rparr>) = Address n"
  "Address (n\<lparr>emitCounter := c\<rparr>) = Address n"
  "Address (n\<lparr>heartbeat := d\<rparr>) = Address n"
  "Address (n\<lparr>pingMillis := f\<rparr>) = Address n"
  by (simp_all add: Address_def)


section \<open>The backoff of dead nodes\<close>









lemma deadState_sel [simp]:
  "heap (deadState rs) 10 = exampleNode 10 StatusAlive 0 0"
  "heap (deadState rs) 11 = exampleNode 11 StatusAlive 0 0"
  "heap (deadState rs) 12 = exampleNode 12 StatusDead 9 0"
  "thisHost (deadState rs) = 10"
  "knownNodes (deadState rs) = knownNodes threeNodes"
  "updatedNodes (deadState rs) = [(''10.0.0.12:9999'', 12)]"
  "deadNodeRetries (deadState rs) = rs"
  "pendingAcks (deadState rs) = []"
  "currentHeartbeat (deadState rs) = 8"
  "knownNodesModifiedFlag (deadState rs) = False"
  "runningFlag (deadState rs) = True"
  "broadcasts (deadState rs) = []"
  "nowMillis (deadState rs) = 1000"
  by (simp_all add: deadState_def)



end
